theory Spec2Isabelle
  imports Main
begin

section \<open>Python values and errors\<close>

text \<open>
  The program is Python. The model follows each function at the level of its own text,
  on the objects the repository builds. Everything a function does is modelled as Python
  runs it: a name that its module neither defines nor imports raises NameError when it is
  evaluated, an attribute that nothing assigns raises AttributeError when it is read, and
  calls with the declared signatures, indexing, dictionary access and comparisons raise
  where Python raises. Every exception is a value of \<open>error\<close>; a function that may raise returns
  \<open>error + 'a\<close> with \<open>Inl\<close> for the exception, and a function that mutates the game
  returns the state next to its outcome (there is no rollback: what was mutated before a
  raise or a failure stays mutated).
\<close>

subsection \<open>Cards (core/state.py, class Card)\<close>

text \<open>A card has a rank and a suit, both strings; \<open>__eq__\<close> compares the two fields.\<close>

record Card =
  rank :: string
  suit :: string

definition mk_Card :: "string \<Rightarrow> string \<Rightarrow> Card" where
  "mk_Card r s = \<lparr>rank = r, suit = s\<rparr>"

subsection \<open>Values, messages, exceptions\<close>

text \<open>
  The values that occur in payloads, as player ids and in messages. A \<open>Player\<close> object
  is known by its identity, an address: the class defines no \<open>__eq__\<close>, so two players
  are equal exactly when they are the same object.
\<close>

type_synonym addr = nat

datatype pyval =
    PyNone
  | PyBool bool
  | PyInt int
  | PyStr string
  | PyCard Card
  | PyPlayer addr

text \<open>
  A message is an f-string: its literal pieces and, between them, the values whose
  \<open>str()\<close> is interpolated. A plain string literal is a single \<open>Lit\<close>.
\<close>

datatype piece = Lit string | Val pyval

type_synonym msg = "piece list"

datatype error =
    ValueError msg
  | KeyError
  | IndexError
  | TypeError
  | AttributeError string
  | NameError string

text \<open>
  \<open>a == b\<close>. \<open>Card.__eq__\<close> reads \<open>other.rank\<close>, so comparing a card with anything
  that is not a card raises AttributeError, whichever side the card is on (the other
  operand's \<open>__eq__\<close> declines and Python tries the card's). \<open>bool\<close> is a subclass of
  \<open>int\<close>. Everything else compares by value, players by identity.
\<close>

fun py_eq :: "pyval \<Rightarrow> pyval \<Rightarrow> error + bool" where
  "py_eq (PyCard c) (PyCard d) = Inr (rank c = rank d \<and> suit c = suit d)"
| "py_eq (PyCard c) b = Inl (AttributeError ''rank'')"
| "py_eq a (PyCard d) = Inl (AttributeError ''rank'')"
| "py_eq (PyBool x) (PyInt j) = Inr ((if x then 1 else 0) = j)"
| "py_eq (PyInt i) (PyBool y) = Inr (i = (if y then 1 else 0))"
| "py_eq a b = Inr (a = b)"

text \<open>Truth value of an object in a condition.\<close>

fun py_truthy :: "pyval \<Rightarrow> bool" where
  "py_truthy PyNone = False"
| "py_truthy (PyBool b) = b"
| "py_truthy (PyInt i) = (i \<noteq> 0)"
| "py_truthy (PyStr s) = (s \<noteq> [])"
| "py_truthy (PyCard c) = True"
| "py_truthy (PyPlayer a) = True"

text \<open>\<open>v in xs\<close> for a list: the elements are compared with \<open>v\<close> from the left.\<close>

fun py_contains :: "pyval list \<Rightarrow> pyval \<Rightarrow> error + bool" where
  "py_contains [] v = Inr False"
| "py_contains (x # xs) v =
     (case py_eq x v of
        Inl e \<Rightarrow> Inl e
      | Inr found \<Rightarrow> if found then Inr True else py_contains xs v)"

text \<open>
  \<open>xs.index(x)\<close> on a list of players, where \<open>x\<close> may be \<open>None\<close>: the first position
  of the object, ValueError when it is not in the list.
\<close>

fun first_index :: "addr list \<Rightarrow> addr \<Rightarrow> nat option" where
  "first_index [] a = None"
| "first_index (x # xs) a = (if x = a then Some 0 else map_option Suc (first_index xs a))"

definition py_index :: "addr list \<Rightarrow> addr option \<Rightarrow> error + nat" where
  "py_index xs x =
     (case x of
        None \<Rightarrow> Inl (ValueError [Val PyNone, Lit '' is not in list''])
      | Some a \<Rightarrow>
          (case first_index xs a of
             None \<Rightarrow> Inl (ValueError [Val (PyPlayer a), Lit '' is not in list''])
           | Some i \<Rightarrow> Inr i))"

text \<open>\<open>xs[i]\<close> for an integer \<open>i\<close>: negative indices count from the end.\<close>

definition py_getitem :: "'a list \<Rightarrow> int \<Rightarrow> error + 'a" where
  "py_getitem xs i =
     (if 0 \<le> i \<and> i < int (length xs) then Inr (xs ! nat i)
      else if i < 0 \<and> - int (length xs) \<le> i then Inr (xs ! nat (int (length xs) + i))
      else Inl IndexError)"

text \<open>
  A dictionary keyed by player ids, in insertion order. A card is not hashable (the
  class defines \<open>__eq__\<close> and no \<open>__hash__\<close>), so looking one up raises TypeError.
\<close>

fun dict_get :: "(pyval \<times> 'v) list \<Rightarrow> pyval \<Rightarrow> error + 'v option" where
  "dict_get d (PyCard c) = Inl TypeError"
| "dict_get [] k = Inr None"
| "dict_get ((k', v) # d) k = (if py_eq k' k = Inr True then Inr (Some v) else dict_get d k)"

fun dict_put :: "(pyval \<times> 'v) list \<Rightarrow> pyval \<Rightarrow> 'v \<Rightarrow> (pyval \<times> 'v) list" where
  "dict_put [] k v = [(k, v)]"
| "dict_put ((k', v') # d) k v =
     (if py_eq k' k = Inr True then (k', v) # d else (k', v') # dict_put d k v)"

text \<open>\<open>max(xs, key=f)\<close> on a non-empty list: the first element with the largest key.\<close>

fun py_max_from :: "('a \<Rightarrow> int) \<Rightarrow> 'a \<Rightarrow> 'a list \<Rightarrow> 'a" where
  "py_max_from f best [] = best"
| "py_max_from f best (x # xs) = py_max_from f (if f x > f best then x else best) xs"

section \<open>Decks (core/state.py, class Deck; euchre/setup.py, class EuchreDeck)\<close>

definition Deck_RANKS :: "string list" where
  "Deck_RANKS = ''2'' # ''3'' # ''4'' # ''5'' # ''6'' # ''7'' # ''8'' # ''9'' # ''10''
     # ''J'' # ''Q'' # ''K'' # ''A'' # []"

definition Deck_SUITS :: "string list" where
  "Deck_SUITS = [''Hearts'', ''Diamonds'', ''Clubs'', ''Spades'']"

definition EuchreDeck_RANKS :: "string list" where
  "EuchreDeck_RANKS = [''9'', ''10'', ''J'', ''Q'', ''K'', ''A'']"

text \<open>
  The attributes a \<open>Deck\<close> or \<open>EuchreDeck\<close> object has: the two class constants, the
  methods, and the instance attribute \<open>cards\<close> that \<open>collect\<close> assigns. \<open>EuchreDeck\<close>
  overrides \<open>RANKS\<close>, \<open>__init__\<close> and \<open>collect\<close> and adds no name.
\<close>

definition Deck_attributes :: "string list" where
  "Deck_attributes = [''RANKS'', ''SUITS'', ''__init__'', ''collect'', ''shuffle'', ''deal'',
     ''peek'', ''__len__'', ''__str__'', ''cards'']"

text \<open>
  Both \<open>collect\<close> methods are the same double loop, suits outside and ranks inside,
  appending one card per pair. They differ in how they name the card constructor:
  \<open>Deck.collect\<close> calls the module's class \<open>Card\<close>, \<open>EuchreDeck.collect\<close> calls
  \<open>self.Card\<close>, an attribute lookup on the deck. The constructor is therefore an
  optional argument of the loop: \<open>None\<close> is a lookup that fails, and the failure is
  raised when the loop body first evaluates it.
\<close>

fun collect_ranks ::
  "(string \<Rightarrow> string \<Rightarrow> Card) option \<Rightarrow> string \<Rightarrow> string list \<Rightarrow> Card list \<Rightarrow> error + Card list" where
  "collect_ranks ctor s [] acc = Inr acc"
| "collect_ranks ctor s (r # rs) acc =
     (case ctor of
        None \<Rightarrow> Inl (AttributeError ''Card'')
      | Some f \<Rightarrow> collect_ranks ctor s rs (acc @ [f r s]))"

fun collect_suits ::
  "(string \<Rightarrow> string \<Rightarrow> Card) option \<Rightarrow> string list \<Rightarrow> string list \<Rightarrow> Card list \<Rightarrow> error + Card list" where
  "collect_suits ctor [] ranks acc = Inr acc"
| "collect_suits ctor (s # ss) ranks acc =
     (case collect_ranks ctor s ranks acc of
        Inl e \<Rightarrow> Inl e
      | Inr acc' \<Rightarrow> collect_suits ctor ss ranks acc')"

definition Deck_collect :: "error + Card list" where
  "Deck_collect = collect_suits (Some mk_Card) Deck_SUITS Deck_RANKS []"

definition EuchreDeck_getattr_Card :: "(string \<Rightarrow> string \<Rightarrow> Card) option" where
  "EuchreDeck_getattr_Card = (if ''Card'' \<in> set Deck_attributes then Some mk_Card else None)"

definition EuchreDeck_collect :: "error + Card list" where
  "EuchreDeck_collect = collect_suits EuchreDeck_getattr_Card Deck_SUITS EuchreDeck_RANKS []"

text \<open>\<open>Deck.__init__\<close> and \<open>EuchreDeck.__init__\<close> only call \<open>collect\<close>.\<close>

definition Deck_init :: "error + Card list" where
  "Deck_init = Deck_collect"

definition EuchreDeck_init :: "error + Card list" where
  "EuchreDeck_init = EuchreDeck_collect"

section \<open>The game state (core/state.py, core/net.py, euchre/setup.py)\<close>

datatype Phase =
    SETUP
  | DEAL
  | PICKUP_CARD
  | PICK_SUIT
  | DISCARD
  | PLAY
  | SCORE_TRICK
  | SCORE_GAME
  | END_GAME

text \<open>
  A player object. \<open>Player.__init__\<close> sets \<open>id\<close> and \<open>hand\<close>. The executors also
  read \<open>team_id\<close> from players, an attribute that nothing in the repository assigns:
  \<open>None\<close> is a player without it, as every player the repository builds is, and reading
  it raises AttributeError. A value is a team id attached to the object from outside, as
  the data model of the specification has it.
\<close>

record Player =
  player_id :: pyval
  team_id :: "int option"
  hand :: "Card list"

definition Player_init :: "pyval \<Rightarrow> Player" where
  "Player_init v = \<lparr>player_id = v, team_id = None, hand = []\<rparr>"

text \<open>\<open>player.team_id\<close>.\<close>

definition Player_team_id :: "Player \<Rightarrow> error + int" where
  "Player_team_id p =
     (case team_id p of None \<Rightarrow> Inl (AttributeError ''team_id'') | Some t \<Rightarrow> Inr t)"

record Slot =
  cards :: "Card list"
  face_up :: bool

text \<open>
  A connection is an object of the class \<open>Connection\<close> of core/net.py, known by its
  identity. The executors write \<open>connection[1]\<close> for the player of a connection; the
  class defines no \<open>__getitem__\<close>, so the subscript raises TypeError.
\<close>

datatype Connection = Connection nat

definition Connection_getitem :: "Connection \<Rightarrow> int \<Rightarrow> error + addr" where
  "Connection_getitem c i = Inl TypeError"

text \<open>
  Every executor and validator receives the connection manager, the board and the game.
  The three are one record here; the comments name the object each field belongs to.
  \<^item> \<open>connections\<close>: the connection manager's dictionary from player id to connection.
  \<^item> \<open>slots\<close>: the board's dictionary from player id to slot.
  \<^item> \<open>objects\<close>: the player objects by address; \<open>players\<close>, \<open>current_dealer\<close>,
    \<open>current_player\<close> and \<open>blocking_on_discard\<close> hold references to them.
  \<^item> the other fields are the attributes \<open>EuchreGame.__init__\<close> assigns.
\<close>

record world =
  connections :: "(pyval \<times> Connection) list"
  slots :: "(pyval \<times> Slot) list"
  objects :: "addr \<Rightarrow> Player"
  phase :: Phase
  players :: "addr list"
  score :: "int \<rightharpoonup> int"
  hand_score :: "int \<rightharpoonup> int"
  calling_team :: "int option"
  renegs :: "(int \<times> string) list"
  current_dealer :: "addr option"
  current_player :: "addr option"
  blocking_on_discard :: "addr list"
  trump_suit :: "string option"

subsection \<open>Methods of Player and Slot\<close>

text \<open>\<open>Player.__str__\<close> and \<open>Card.__str__\<close>, as message pieces.\<close>

definition Player_str :: "Player \<Rightarrow> msg" where
  "Player_str p =
     [Lit ''Player '', Val (player_id p), Lit '' with '', Val (PyInt (int (length (hand p)))),
      Lit '' cards'']"

definition Card_str :: "Card \<Rightarrow> msg" where
  "Card_str c = [Lit (rank c), Lit '' of '', Lit (suit c)]"

definition py_str :: "world \<Rightarrow> pyval \<Rightarrow> msg" where
  "py_str w v =
     (case v of
        PyCard c \<Rightarrow> Card_str c
      | PyPlayer a \<Rightarrow> Player_str (objects w a)
      | PyStr s \<Rightarrow> [Lit s]
      | _ \<Rightarrow> [Val v])"

definition player_opt_str :: "world \<Rightarrow> addr option \<Rightarrow> msg" where
  "player_opt_str w x = (case x of None \<Rightarrow> [Val PyNone] | Some a \<Rightarrow> Player_str (objects w a))"

text \<open>
  \<open>Player.remove_card(card)\<close>: if the card is in the hand, its first occurrence is
  removed and the result is true. The argument comes from a payload and can be any value;
  the membership test compares it with the cards of the hand, and succeeds only for a
  card.
\<close>

definition Player_remove_card :: "Player \<Rightarrow> pyval \<Rightarrow> error + (bool \<times> Player)" where
  "Player_remove_card p v =
     (case py_contains (map PyCard (hand p)) v of
        Inl e \<Rightarrow> Inl e
      | Inr found \<Rightarrow>
          if found
          then (case v of
                  PyCard c \<Rightarrow> Inr (True, p\<lparr>hand := remove1 c (hand p)\<rparr>)
                | _ \<Rightarrow> Inr (True, p))
          else Inr (False, p))"

definition Slot_add_card :: "Slot \<Rightarrow> Card \<Rightarrow> Slot" where
  "Slot_add_card sl c = sl\<lparr>cards := cards sl @ [c]\<rparr>"

subsection \<open>Methods of Game, EuchreGame and ConnectionManager\<close>

text \<open>\<open>Game.get_player\<close>: the first player whose id equals the argument, else \<open>None\<close>.\<close>

fun find_player :: "world \<Rightarrow> addr list \<Rightarrow> pyval \<Rightarrow> error + addr option" where
  "find_player w [] v = Inr None"
| "find_player w (a # as) v =
     (case py_eq (player_id (objects w a)) v of
        Inl e \<Rightarrow> Inl e
      | Inr same \<Rightarrow> if same then Inr (Some a) else find_player w as v)"

definition get_player :: "world \<Rightarrow> pyval \<Rightarrow> error + addr option" where
  "get_player w v = find_player w (players w) v"

definition get_connection :: "world \<Rightarrow> pyval \<Rightarrow> error + Connection option" where
  "get_connection w v = dict_get (connections w) v"

definition set_phase :: "Phase \<Rightarrow> world \<Rightarrow> world" where
  "set_phase ph w = w\<lparr>phase := ph\<rparr>"

definition set_dealer :: "addr \<Rightarrow> world \<Rightarrow> world" where
  "set_dealer a w = w\<lparr>current_dealer := Some a\<rparr>"

definition set_current_player :: "addr \<Rightarrow> world \<Rightarrow> world" where
  "set_current_player a w = w\<lparr>current_player := Some a\<rparr>"

definition add_reneg :: "int \<Rightarrow> string \<Rightarrow> world \<Rightarrow> world" where
  "add_reneg t reason w = w\<lparr>renegs := renegs w @ [(t, reason)]\<rparr>"

definition add_blocking_discard :: "addr \<Rightarrow> world \<Rightarrow> world" where
  "add_blocking_discard a w =
     (if a \<notin> set (blocking_on_discard w)
      then w\<lparr>blocking_on_discard := blocking_on_discard w @ [a]\<rparr>
      else w)"

text \<open>
  \<open>remove_blocking_discard\<close> is called with the result of \<open>get_player\<close>, which may be
  \<open>None\<close>; \<open>None\<close> is never in the list.
\<close>

definition remove_blocking_discard :: "addr option \<Rightarrow> world \<Rightarrow> world" where
  "remove_blocking_discard x w =
     (case x of
        None \<Rightarrow> w
      | Some a \<Rightarrow>
          if a \<in> set (blocking_on_discard w)
          then w\<lparr>blocking_on_discard := remove1 a (blocking_on_discard w)\<rparr>
          else w)"

definition is_blocked :: "world \<Rightarrow> bool" where
  "is_blocked w = (length (blocking_on_discard w) > 0)"

section \<open>The action pipeline (core/logic.py)\<close>

text \<open>
  An action: the dataclass fields \<open>name\<close> and \<open>payload\<close>, and the class it was built
  from (the validators test it with \<open>isinstance\<close>). \<open>is_player_action\<close> reads an
  attribute \<open>action_type\<close>, which the dataclass does not define: \<open>None\<close> stands for an
  action without that attribute, as every action of the builder is.
\<close>

datatype ActionClass =
    Action_base
  | Play
  | Discard_action
  | CallReneg
  | CallPickup
  | Pass
  | CallSuit
  | EndGame
  | StartGame

record Action =
  cls :: ActionClass
  name :: string
  action_type :: "string option"
  payload :: "(string \<times> pyval) list"

text \<open>The executor classes of euchre/executors.py, with their constructor arguments.\<close>

datatype ActionExecutor =
    PickUp
  | Reneg
  | PlayCard
  | NotifyCurrentPlayer "msg option"
  | AdvanceDealer
  | NotifyDealer "msg option"
  | Broadcast "msg option"
  | Deal
  | Discard
  | AdvanceTurn
  | SetPlayerToDealersLeft
  | SetDealer
  | SetTrumpSuit
  | ClearBoard
  | ScoreTrick
  | ScoreHand

record ActionResult =
  success :: bool
  message :: msg
  follow_up_actions :: "ActionExecutor list"

definition mk_ActionResult :: "bool \<Rightarrow> msg \<Rightarrow> ActionExecutor list \<Rightarrow> ActionResult" where
  "mk_ActionResult ok m fs = \<lparr>success = ok, message = m, follow_up_actions = fs\<rparr>"

text \<open>
  What \<open>execute\<close> gives back: an exception, or the returned object, which is an
  \<open>ActionResult\<close> or \<open>None\<close> (a function body that ends without \<open>return\<close>), and the
  state it leaves.
\<close>

type_synonym 'w executed = "(error + ActionResult option) \<times> 'w"

type_synonym 'w semantics = "ActionExecutor \<Rightarrow> Action \<Rightarrow> 'w \<Rightarrow> 'w executed"

text \<open>
  A validator is a predicate of the action and the state; it may raise. A rule has its
  validators in registration order, one executor and the success message, which
  \<open>ActionRule.__init__\<close> sets to the empty string.
\<close>

type_synonym 'w validator = "Action \<Rightarrow> 'w \<Rightarrow> error + bool"

record 'w ActionRule =
  validators :: "'w validator list"
  executor :: ActionExecutor
  success_message :: msg

definition mk_ActionRule :: "'w validator list \<Rightarrow> ActionExecutor \<Rightarrow> 'w ActionRule" where
  "mk_ActionRule vs ex = \<lparr>validators = vs, executor = ex, success_message = []\<rparr>"

subsection \<open>ActionRule.run_executors\<close>

text \<open>
  The \<open>for\<close> loop of \<open>run_executors\<close> over one level: each executor runs on the state
  the previous one left; a failed result is returned at once; \<open>result.success\<close> on
  \<open>None\<close> raises AttributeError; otherwise the follow-ups are collected.
\<close>

fun run_level ::
  "'w semantics \<Rightarrow> Action \<Rightarrow> 'w \<Rightarrow> ActionExecutor list \<Rightarrow> ActionExecutor list
     \<Rightarrow> (error + (ActionResult + ActionExecutor list)) \<times> 'w" where
  "run_level exec a w [] follow_ups = (Inr (Inr follow_ups), w)"
| "run_level exec a w (x # xs) follow_ups =
     (case exec x a w of
        (Inl e, w') \<Rightarrow> (Inl e, w')
      | (Inr None, w') \<Rightarrow> (Inl (AttributeError ''success''), w')
      | (Inr (Some result), w') \<Rightarrow>
          if \<not> success result then (Inr (Inl result), w')
          else run_level exec a w' xs (follow_ups @ follow_up_actions result))"

text \<open>
  \<open>run_executors\<close> calls itself on the collected follow-ups until a level collects
  none. Nothing bounds the number of levels, so the function is partial: \<open>None\<close> is a
  run that never returns.
\<close>

partial_function (option) run_executors ::
  "'w semantics \<Rightarrow> msg \<Rightarrow> Action \<Rightarrow> 'w \<Rightarrow> ActionExecutor list
     \<Rightarrow> ((error + ActionResult) \<times> 'w) option" where
  "run_executors exec success_msg a w to_execute =
     (case run_level exec a w to_execute [] of
        (Inl e, w') \<Rightarrow> Some (Inl e, w')
      | (Inr (Inl result), w') \<Rightarrow> Some (Inr result, w')
      | (Inr (Inr follow_ups), w') \<Rightarrow>
          if follow_ups \<noteq> [] then run_executors exec success_msg a w' follow_ups
          else Some (Inr (mk_ActionResult True
                 (if success_msg \<noteq> [] then success_msg else [Lit ''Action executed successfully''])
                 []), w'))"

subsection \<open>ActionRule.process\<close>

text \<open>
  The validator loop: in list order, stopping at the first validator that returns false
  (or raises).
\<close>

fun run_validators :: "'w validator list \<Rightarrow> Action \<Rightarrow> 'w \<Rightarrow> error + bool" where
  "run_validators [] a w = Inr True"
| "run_validators (v # vs) a w =
     (case v a w of
        Inl e \<Rightarrow> Inl e
      | Inr ok \<Rightarrow> if \<not> ok then Inr False else run_validators vs a w)"

definition process ::
  "'w semantics \<Rightarrow> 'w ActionRule \<Rightarrow> Action \<Rightarrow> 'w \<Rightarrow> ((error + ActionResult) \<times> 'w) option" where
  "process exec rule a w =
     (case run_validators (validators rule) a w of
        Inl e \<Rightarrow> Some (Inl e, w)
      | Inr ok \<Rightarrow>
          if \<not> ok then Some (Inr (mk_ActionResult False [Lit ''Action validation failed''] []), w)
          else run_executors exec (success_message rule) a w [executor rule])"

subsection \<open>ActionRouter.route and is_player_action (euchre/actions.py)\<close>

definition is_player_action :: "Action \<Rightarrow> error + bool" where
  "is_player_action a =
     (case action_type a of
        None \<Rightarrow> Inl (AttributeError ''action_type'')
      | Some t \<Rightarrow> Inr (t \<in> set [''play'', ''discard'', ''call_reneg'', ''call_pickup'', ''call_suit'']))"

text \<open>
  The names that core/logic.py binds: what it imports and the classes it defines.
  \<open>route\<close> calls \<open>is_player_action\<close>, a function of euchre/actions.py, by its bare
  name: the call finds the function only if the module binds that name, and raises
  NameError otherwise.
\<close>

definition logic_module_names :: "string list" where
  "logic_module_names =
     [''dataclass'', ''Dict'', ''List'', ''Optional'', ''Type'', ''Player'', ''Board'', ''Game'',
      ''ConnectionManager'', ''Action'', ''ActionResult'', ''ActionValidator'', ''ActionExecutor'',
      ''ActionRule'', ''ActionRouter'', ''ActionBuilder'']"

definition logic_global_is_player_action :: "(Action \<Rightarrow> error + bool) option" where
  "logic_global_is_player_action =
     (if ''is_player_action'' \<in> set logic_module_names then Some is_player_action else None)"

text \<open>
  \<open>route\<close> makes its two checks, looks the rule up and hands the action to the rule's
  \<open>process\<close>, here the argument \<open>proc\<close>. \<open>Inl\<close> is an exception raised by \<open>route\<close>
  itself. The allow-list check is evaluated only when \<open>player_action\<close> is true.
\<close>

definition route ::
  "('r \<Rightarrow> Action \<Rightarrow> 'w \<Rightarrow> 'res) \<Rightarrow> (string \<times> 'r) list \<Rightarrow> Action \<Rightarrow> 'w \<Rightarrow> bool \<Rightarrow> error + 'res" where
  "route proc rules a w player_action =
     (case map_of rules (name a) of
        None \<Rightarrow> Inl (ValueError [Lit ''No rule found for action: '', Lit (name a)])
      | Some rule \<Rightarrow>
          (case (if player_action
                 then (case logic_global_is_player_action of
                         None \<Rightarrow> Inl (NameError ''is_player_action'')
                       | Some f \<Rightarrow> f a)
                 else Inr True) of
             Inl e \<Rightarrow> Inl e
           | Inr allowed \<Rightarrow>
               if \<not> allowed
               then Inl (ValueError [Lit ''Action '', Lit (name a),
                           Lit '' is not allowed to be executed by a player''])
               else Inr (proc rule a w)))"

section \<open>Euchre actions, router table and validators\<close>

subsection \<open>The action classes (euchre/actions.py)\<close>

definition mk_Action :: "ActionClass \<Rightarrow> string \<Rightarrow> (string \<times> pyval) list \<Rightarrow> Action" where
  "mk_Action c n p = \<lparr>cls = c, name = n, action_type = None, payload = p\<rparr>"

definition mk_Play :: "pyval \<Rightarrow> pyval \<Rightarrow> Action" where
  "mk_Play card' pid = mk_Action Play ''play'' [(''card'', card'), (''player_id'', pid)]"

definition mk_Discard :: "pyval \<Rightarrow> pyval \<Rightarrow> Action" where
  "mk_Discard card' pid = mk_Action Discard_action ''discard'' [(''card'', card'), (''player_id'', pid)]"

definition mk_CallReneg :: "pyval \<Rightarrow> pyval \<Rightarrow> Action" where
  "mk_CallReneg trick_number team =
     mk_Action CallReneg ''call_reneg'' [(''trick_number'', trick_number), (''team_id'', team)]"

definition mk_CallPickup :: Action where
  "mk_CallPickup = mk_Action CallPickup ''call_pickup'' []"

definition mk_Pass :: Action where
  "mk_Pass = mk_Action Pass ''pass'' []"

definition mk_CallSuit :: "pyval \<Rightarrow> Action" where
  "mk_CallSuit s = mk_Action CallSuit ''call_suit'' [(''suit'', s)]"

text \<open>\<open>action.payload[k]\<close>.\<close>

definition payload_get :: "Action \<Rightarrow> string \<Rightarrow> error + pyval" where
  "payload_get a k = (case map_of (payload a) k of None \<Rightarrow> Inl KeyError | Some v \<Rightarrow> Inr v)"

subsection \<open>The rule table of EuchreActionRouter (euchre/setup.py)\<close>

text \<open>The dictionary \<open>EuchreActionRouter.__init__\<close> assigns: action name to rule.\<close>

datatype RuleClass =
    PlayCard_rule
  | Discard_rule
  | CallReneg_rule
  | CallPickup_rule
  | CallSuit_rule
  | TrickOver_rule

definition EuchreActionRouter_rules :: "(string \<times> RuleClass) list" where
  "EuchreActionRouter_rules =
     [(''play'', PlayCard_rule),
      (''discard'', Discard_rule),
      (''call_reneg'', CallReneg_rule),
      (''call_pickup'', CallPickup_rule),
      (''call_suit'', CallSuit_rule),
      (''trick_over'', TrickOver_rule)]"

subsection \<open>Validators (euchre/validators.py)\<close>

text \<open>
  \<open>CorrectPhase\<close> is a chain of \<open>isinstance\<close> tests. In that module \<open>TrickOver\<close> and
  \<open>HandOver\<close> are validator classes, of which no action is an instance, so their
  branches are never taken. The last test names \<open>EndGame\<close>, which the module neither
  imports nor defines: an action of none of the six classes tested before it raises
  NameError there.
\<close>

definition CorrectPhase_validate :: "world validator" where
  "CorrectPhase_validate a w =
     (if cls a = Play \<or> cls a = CallReneg then Inr (phase w = PLAY)
      else if cls a = Discard_action then Inr (phase w = DISCARD)
      else if cls a = CallPickup then Inr (phase w = PICKUP_CARD)
      else if cls a = CallSuit then Inr (phase w = PICK_SUIT)
      else if cls a = Pass then Inr (phase w \<in> set [PICKUP_CARD, PICK_SUIT])
      else Inl (NameError ''EndGame''))"

definition HasCard_validate :: "world validator" where
  "HasCard_validate a w =
     (if cls a = Play \<or> cls a = Discard_action
      then (case payload_get a ''player_id'' of
              Inl e \<Rightarrow> Inl e
            | Inr pid \<Rightarrow>
                (case get_player w pid of
                   Inl e \<Rightarrow> Inl e
                 | Inr None \<Rightarrow> Inr False
                 | Inr (Some player) \<Rightarrow>
                     (case payload_get a ''card'' of
                        Inl e \<Rightarrow> Inl e
                      | Inr card' \<Rightarrow> py_contains (map PyCard (hand (objects w player))) card')))
      else Inr False)"

text \<open>
  \<open>BlockedOnPlayerDiscard\<close> tests \<open>player_id in game.blocking_on_discard\<close>: the
  payload's value against the list, whose elements are player objects.
\<close>

definition BlockedOnPlayerDiscard_validate :: "world validator" where
  "BlockedOnPlayerDiscard_validate a w =
     (case payload_get a ''player_id'' of
        Inl e \<Rightarrow> Inl e
      | Inr pid \<Rightarrow> py_contains (map PyPlayer (blocking_on_discard w)) pid)"

text \<open>\<open>PlayersTurn\<close>: the current player has a connection.\<close>

definition PlayersTurn_validate :: "world validator" where
  "PlayersTurn_validate a w =
     (case current_player w of
        None \<Rightarrow> Inl (AttributeError ''id'')
      | Some cp \<Rightarrow>
          (case get_connection w (player_id (objects w cp)) of
             Inl e \<Rightarrow> Inl e
           | Inr connection \<Rightarrow> Inr (connection \<noteq> None)))"

subsection \<open>The rules for playing and discarding (euchre/rules.py)\<close>

definition PlayCard_ActionRule :: "world ActionRule" where
  "PlayCard_ActionRule =
     mk_ActionRule [CorrectPhase_validate, PlayersTurn_validate, HasCard_validate] PlayCard"

definition Discard_ActionRule :: "world ActionRule" where
  "Discard_ActionRule =
     mk_ActionRule [CorrectPhase_validate, HasCard_validate, BlockedOnPlayerDiscard_validate] Discard"

section \<open>Executors (euchre/executors.py)\<close>

text \<open>\<open>d[k] += n\<close> on a dictionary with integer keys: KeyError when the key is missing.\<close>

definition dict_add :: "(int \<rightharpoonup> int) \<Rightarrow> int \<Rightarrow> int \<Rightarrow> error + (int \<rightharpoonup> int)" where
  "dict_add d k n = (case d k of None \<Rightarrow> Inl KeyError | Some v \<Rightarrow> Inr (d(k \<mapsto> v + n)))"

subsection \<open>PlayCard\<close>

text \<open>
  The condition \<open>connection and connection[1].remove_card(card)\<close>: without a connection
  the result is the failure; with one, the subscript \<open>connection[1]\<close> is evaluated first.
  The card is the payload's value. \<open>remove_card\<close> returns true only for a card of the
  hand (comparing the cards of the hand with any other value raises), so where the slot
  is written the value is a card; the last case of the inner distinction is never taken.
\<close>

definition PlayCard_execute :: "Action \<Rightarrow> world \<Rightarrow> world executed" where
  "PlayCard_execute a w =
     (case payload_get a ''card'' of
        Inl e \<Rightarrow> (Inl e, w)
      | Inr card' \<Rightarrow>
     (case current_player w of
        None \<Rightarrow> (Inl (AttributeError ''id''), w)
      | Some cp \<Rightarrow>
     (case get_connection w (player_id (objects w cp)) of
        Inl e \<Rightarrow> (Inl e, w)
      | Inr None \<Rightarrow> (Inr (Some (mk_ActionResult False [Lit ''Card not in hand''] [])), w)
      | Inr (Some connection) \<Rightarrow>
     (case Connection_getitem connection 1 of
        Inl e \<Rightarrow> (Inl e, w)
      | Inr p \<Rightarrow>
     (case Player_remove_card (objects w p) card' of
        Inl e \<Rightarrow> (Inl e, w)
      | Inr (removed, p') \<Rightarrow>
          if removed
          then (let w1 = w\<lparr>objects := (objects w)(p := p')\<rparr> in
                case (card', dict_get (slots w1) (player_id p')) of
                  (PyCard c, Inr (Some sl)) \<Rightarrow>
                    (Inr (Some (mk_ActionResult True (Lit ''Played '' # py_str w1 card') [AdvanceTurn])),
                     w1\<lparr>slots := dict_put (slots w1) (player_id p') (Slot_add_card sl c)\<rparr>)
                | (PyCard c, Inr None) \<Rightarrow> (Inl KeyError, w1)
                | (PyCard c, Inl e) \<Rightarrow> (Inl e, w1)
                | (_, _) \<Rightarrow> (Inl TypeError, w1))
          else (Inr (Some (mk_ActionResult False [Lit ''Card not in hand''] [])), w))))))"

subsection \<open>Discard\<close>

definition Discard_execute :: "Action \<Rightarrow> world \<Rightarrow> world executed" where
  "Discard_execute a w =
     (case payload_get a ''card'' of
        Inl e \<Rightarrow> (Inl e, w)
      | Inr card' \<Rightarrow>
     (let show_card = (case map_of (payload a) ''show'' of None \<Rightarrow> False | Some v \<Rightarrow> py_truthy v) in
      case payload_get a ''player_id'' of
        Inl e \<Rightarrow> (Inl e, w)
      | Inr pid \<Rightarrow>
     (case get_player w pid of
        Inl e \<Rightarrow> (Inl e, w)
      | Inr found \<Rightarrow>
     (let w0 = remove_blocking_discard found w in
      case get_connection w0 pid of
        Inl e \<Rightarrow> (Inl e, w0)
      | Inr None \<Rightarrow> (Inr (Some (mk_ActionResult False [Lit ''Card not in hand''] [])), w0)
      | Inr (Some connection) \<Rightarrow>
     (case Connection_getitem connection 1 of
        Inl e \<Rightarrow> (Inl e, w0)
      | Inr p \<Rightarrow>
     (case Player_remove_card (objects w0 p) card' of
        Inl e \<Rightarrow> (Inl e, w0)
      | Inr (removed, p') \<Rightarrow>
          if removed
          then (let w1 = w0\<lparr>objects := (objects w0)(p := p')\<rparr>;
                    finished = (Inr (Some (mk_ActionResult True (Lit ''Discarded '' # py_str w1 card') [])))
                in if show_card
                   then (case (card', dict_get (slots w1) (player_id p')) of
                           (PyCard c, Inr (Some sl)) \<Rightarrow>
                             (finished, set_phase PLAY
                                (w1\<lparr>slots := dict_put (slots w1) (player_id p') (Slot_add_card sl c)\<rparr>))
                         | (PyCard c, Inr None) \<Rightarrow> (Inl KeyError, w1)
                         | (PyCard c, Inl e) \<Rightarrow> (Inl e, w1)
                         | (_, _) \<Rightarrow> (Inl TypeError, w1))
                   else (finished, set_phase PLAY w1))
          else (Inr (Some (mk_ActionResult False [Lit ''Card not in hand''] [])), w0)))))))"

subsection \<open>AdvanceTurn\<close>

definition AdvanceTurn_execute :: "world \<Rightarrow> world executed" where
  "AdvanceTurn_execute w =
     (let trick_over = (current_dealer w = current_player w) in
      case py_index (players w) (current_player w) of
        Inl e \<Rightarrow> (Inl e, w)
      | Inr current_index \<Rightarrow>
          (let next_index = (current_index + 1) mod length (players w);
               w1 = set_current_player (players w ! next_index) w
           in if trick_over
              then (if phase w1 = PICKUP_CARD
                    then (Inr (Some (mk_ActionResult True
                            (Lit ''Turn advanced to '' # player_opt_str w1 (current_player w1))
                            [Broadcast (Some (player_opt_str w1 (current_player w1)
                                                @ [Lit '' it is your turn to pick a suit.'']))])),
                          set_phase PICK_SUIT w1)
                    else if phase w1 = PICK_SUIT
                    then (Inr (Some (mk_ActionResult True
                            (player_opt_str w1 (current_dealer w1) @ [Lit '' must discard a card.''])
                            [Broadcast (Some (player_opt_str w1 (current_dealer w1)
                                                @ [Lit '' you must discard a card.'']))])),
                          set_phase DISCARD w1)
                    else if phase w1 = PLAY
                    then (Inr (Some (mk_ActionResult True [Lit ''Trick over. Scoring...'']
                            [Broadcast (Some [Lit ''Trick over. Scoring...'']), ScoreTrick])),
                          set_phase SCORE_TRICK w1)
                    else (Inr None, w1))
              else (Inr None, w1)))"

subsection \<open>ScoreTrick\<close>

text \<open>\<open>order.get(card.rank, -1)\<close> for the dictionary of the six ranks.\<close>

definition rank_order :: "string \<Rightarrow> int" where
  "rank_order r =
     (case map_of [(''9'', 0), (''10'', 1), (''J'', 2), (''Q'', 3), (''K'', 4), (''A'', 5)] r of
        None \<Rightarrow> - 1
      | Some v \<Rightarrow> v)"

text \<open>
  The local function \<open>card_value\<close>; it closes over the suit of the first gathered card
  and the game's trump suit.
\<close>

definition card_value :: "string \<Rightarrow> string option \<Rightarrow> Card \<Rightarrow> int" where
  "card_value starting_suit trump c =
     rank_order (rank c)
       + (if suit c = starting_suit then 10
          else if Some (suit c) = trump then 20
          else 0)"

text \<open>
  Step 1 of \<open>ScoreTrick.execute\<close>: the loop over \<open>range(len(game.players))\<close> that
  gathers, from the current player on, the top card of each player's slot, and returns a
  failed result at the first player without one. A slot is an object with \<open>__len__\<close>, so
  it is true in a condition exactly when it holds a card.
\<close>

fun gather_played ::
  "world \<Rightarrow> nat \<Rightarrow> nat list \<Rightarrow> (addr \<times> Card) list \<Rightarrow> error + (ActionResult + (addr \<times> Card) list)" where
  "gather_played w starting_index [] played_cards = Inr (Inr played_cards)"
| "gather_played w starting_index (i # rest) played_cards =
     (let player = players w ! ((starting_index + i) mod length (players w)) in
      case dict_get (slots w) (player_id (objects w player)) of
        Inl e \<Rightarrow> Inl e
      | Inr slot \<Rightarrow>
          if (case slot of None \<Rightarrow> False | Some sl \<Rightarrow> length (cards sl) > 0)
          then gather_played w starting_index rest
                 (played_cards @ [(player, last (cards (the slot)))])
          else Inr (Inl (mk_ActionResult False
                 [Lit ''Player '', Val (player_id (objects w player)),
                  Lit '' has not played a card this trick.''] [])))"

text \<open>
  Steps 1 and 2 of \<open>ScoreTrick.execute\<close>: the plays are gathered, the suit of the first
  is the starting suit, and \<open>max\<close> binds \<open>winner\<close> and \<open>winning_card\<close>. The outcome is
  an exception, the failed result of step 1, or the winning play.
\<close>

definition ScoreTrick_find_winner :: "world \<Rightarrow> error + (ActionResult + (addr \<times> Card))" where
  "ScoreTrick_find_winner w =
     (case py_index (players w) (current_player w) of
        Inl e \<Rightarrow> Inl e
      | Inr starting_index \<Rightarrow>
     (case gather_played w starting_index [0..<length (players w)] [] of
        Inl e \<Rightarrow> Inl e
      | Inr (Inl early) \<Rightarrow> Inr (Inl early)
      | Inr (Inr []) \<Rightarrow> Inl IndexError
      | Inr (Inr (first # rest)) \<Rightarrow>
          (let starting_suit = suit (snd first)
           in Inr (Inr (py_max_from
                 (\<lambda>pc. card_value starting_suit (trump_suit w) (snd pc)) first rest)))))"

text \<open>
  Steps 3 and 4: \<open>game.hand_score[winner.team_id] += 1\<close> reads the winner's team id
  before it touches the score, then the sum of the two hand scores decides between the
  end of the hand and the next trick.
\<close>

definition ScoreTrick_award :: "world \<Rightarrow> addr \<Rightarrow> Card \<Rightarrow> world executed" where
  "ScoreTrick_award w winner winning_card =
     (case Player_team_id (objects w winner) of
        Inl e \<Rightarrow> (Inl e, w)
      | Inr team \<Rightarrow>
     (case dict_add (hand_score w) team 1 of
        Inl e \<Rightarrow> (Inl e, w)
      | Inr hs \<Rightarrow>
          (let w1 = w\<lparr>hand_score := hs\<rparr> in
           case (hs 1, hs 2) of
             (Some h1, Some h2) \<Rightarrow>
               if h1 + h2 \<ge> 5
               then (Inr (Some (mk_ActionResult True [Lit ''Hand over. Scoring...'']
                       [Broadcast (Some [Lit ''Hand over. Scoring...'']), ScoreHand])),
                     set_phase SCORE_GAME w1)
               else (let w2 = set_current_player winner (set_phase PLAY w1) in
                     (Inr (Some (mk_ActionResult True
                        ([Val (PyInt team), Lit '' wins the trick with '']
                           @ Card_str winning_card @ [Lit ''.''])
                        [Broadcast (Some ([Lit ''Team '', Val (PyInt team),
                                             Lit '' wins the trick with '']
                                           @ Card_str winning_card @ [Lit ''. '']
                                           @ Player_str (objects w2 winner)
                                           @ [Lit '' will start the next trick.''])),
                         NotifyCurrentPlayer (Some (Player_str (objects w2 winner)
                                           @ [Lit '' it is your turn to play.'']))])),
                      w2))
           | (_, _) \<Rightarrow> (Inl KeyError, w1))))"

definition ScoreTrick_execute :: "world \<Rightarrow> world executed" where
  "ScoreTrick_execute w =
     (case ScoreTrick_find_winner w of
        Inl e \<Rightarrow> (Inl e, w)
      | Inr (Inl early) \<Rightarrow> (Inr (Some early), w)
      | Inr (Inr (winner, winning_card)) \<Rightarrow> ScoreTrick_award w winner winning_card)"

subsection \<open>ScoreHand\<close>

definition ScoreHand_execute :: "world \<Rightarrow> world executed" where
  "ScoreHand_execute w =
     (case (hand_score w 1, hand_score w 2) of
        (Some h1, Some h2) \<Rightarrow>
          (let winning_score = max h1 h2;
               winner = (if h1 > h2 then 1 else 2);
               points = (if winning_score \<ge> 5 \<or> Some winner \<noteq> calling_team w then 2 else 1)
           in case dict_add (score w) winner points of
                Inl e \<Rightarrow> (Inl e, w)
              | Inr sc \<Rightarrow>
                  (let w1 = w\<lparr>score := sc\<rparr> in
                   if the (sc winner) \<ge> 10
                   then (Inr (Some (mk_ActionResult True
                           [Lit ''Team '', Val (PyInt winner), Lit '' wins the game!'']
                           [Broadcast (Some [Lit ''Team '', Val (PyInt winner), Lit '' wins the game!''])])),
                         set_phase END_GAME w1)
                   else (let w2 = (set_phase DEAL w1)\<lparr>hand_score := [1 \<mapsto> 0, 2 \<mapsto> 0]\<rparr> in
                         case (sc 1, sc 2) of
                           (Some s1, Some s2) \<Rightarrow>
                             (Inr (Some (mk_ActionResult True
                                [Lit ''Team '', Val (PyInt winner), Lit '' wins the hand!'']
                                [Broadcast (Some [Lit ''Team '', Val (PyInt winner),
                                   Lit '' wins the hand! Score is now '', Val (PyInt s1), Lit '' to '',
                                   Val (PyInt s2), Lit ''.'']),
                                 ClearBoard, AdvanceDealer, Deal])),
                              w2)
                         | (_, _) \<Rightarrow> (Inl KeyError, w2))))
      | (_, _) \<Rightarrow> (Inl KeyError, w))"

subsection \<open>Reneg\<close>

text \<open>
  The first line reads the \<open>team_id\<close> of the accusing player. \<open>game.renegs\<close> is a list
  of pairs (team id, reason), and \<open>game.renegs[team_id]\<close> indexes that list with the
  team id. A pair is a non-empty tuple and so is true in a
  condition. In the first branch the result is built by a call of \<open>ActionResult\<close> with
  four positional arguments; the constructor takes three, so the call raises TypeError,
  after the hand score was changed.
\<close>

definition tuple_truthy :: "int \<times> string \<Rightarrow> bool" where
  "tuple_truthy t = True"

definition Reneg_execute :: "Action \<Rightarrow> world \<Rightarrow> world executed" where
  "Reneg_execute a w =
     (case payload_get a ''player_id'' of
        Inl e \<Rightarrow> (Inl e, w)
      | Inr pid \<Rightarrow>
     (case get_player w pid of
        Inl e \<Rightarrow> (Inl e, w)
      | Inr None \<Rightarrow> (Inl (AttributeError ''team_id''), w)
      | Inr (Some p) \<Rightarrow>
     (case Player_team_id (objects w p) of
        Inl e \<Rightarrow> (Inl e, w)
      | Inr team \<Rightarrow>
     (case py_getitem (renegs w) team of
        Inl e \<Rightarrow> (Inl e, w)
      | Inr flag \<Rightarrow>
          if tuple_truthy flag
          then (case dict_add (hand_score w) team 5 of
                  Inl e \<Rightarrow> (Inl e, w)
                | Inr hs \<Rightarrow> (Inl TypeError, w\<lparr>hand_score := hs\<rparr>))
          else (let opposing_team = (if team = 2 then 1 else 2) in
                case dict_add (hand_score w) opposing_team 5 of
                  Inl e \<Rightarrow> (Inl e, w)
                | Inr hs \<Rightarrow>
                    (Inr (Some (mk_ActionResult False
                       [Lit ''Team '', Val (PyInt team), Lit '' failed a reneg call'']
                       [Broadcast (Some [Lit ''Team '', Val (PyInt team),
                          Lit '' called a reneg, but it was not upheld. Team '',
                          Val (PyInt opposing_team), Lit '' wins the hand.'']),
                        ScoreHand])),
                     w\<lparr>hand_score := hs\<rparr>))))))"

subsection \<open>Dispatch\<close>

text \<open>
  \<open>executor.execute(action, connection_manager, board, game)\<close> for the executors
  modelled above. The semantics of the remaining executors (they send messages, shuffle
  and deal) is the argument \<open>other\<close>.
\<close>

definition execute :: "world semantics \<Rightarrow> world semantics" where
  "execute other x a w =
     (case x of
        Reneg \<Rightarrow> Reneg_execute a w
      | PlayCard \<Rightarrow> PlayCard_execute a w
      | Discard \<Rightarrow> Discard_execute a w
      | AdvanceTurn \<Rightarrow> AdvanceTurn_execute w
      | ScoreTrick \<Rightarrow> ScoreTrick_execute w
      | ScoreHand \<Rightarrow> ScoreHand_execute w
      | _ \<Rightarrow> other x a w)"

section \<open>Terms for stating the properties of trick scoring\<close>




section \<open>Reachable states\<close>





section \<open>Example states\<close>

text \<open>
  A table of four players with the ids 1 to 4, seated in that order at the addresses 0 to
  3, built by \<open>Player.__init__\<close> (and then given a hand), every player connected and
  with an empty face-up slot, and the game as \<open>EuchreGame.__init__\<close> leaves it.
\<close>

definition seat :: "Card list \<Rightarrow> addr \<Rightarrow> Player" where
  "seat h a = (Player_init (PyInt (int a + 1)))\<lparr>hand := h\<rparr>"

definition table :: world where
  "table =
     \<lparr>connections = [(PyInt 1, Connection 0), (PyInt 2, Connection 1), (PyInt 3, Connection 2),
                     (PyInt 4, Connection 3)],
      slots = [(PyInt 1, \<lparr>cards = [], face_up = True\<rparr>), (PyInt 2, \<lparr>cards = [], face_up = True\<rparr>),
               (PyInt 3, \<lparr>cards = [], face_up = True\<rparr>), (PyInt 4, \<lparr>cards = [], face_up = True\<rparr>)],
      objects = seat [],
      phase = SETUP,
      players = [0, 1, 2, 3],
      score = [1 \<mapsto> 0, 2 \<mapsto> 0],
      hand_score = [1 \<mapsto> 0, 2 \<mapsto> 0],
      calling_team = None,
      renegs = [],
      current_dealer = None,
      current_player = None,
      blocking_on_discard = [],
      trump_suit = None\<rparr>"

text \<open>
  A state with a team id attached to every player object from outside, the teams
  alternating around the table as in the data model of the specification.
\<close>

definition teamed :: "world \<Rightarrow> world" where
  "teamed w = w\<lparr>objects := (\<lambda>a. (objects w a)\<lparr>team_id := Some (if even a then 1 else 2)\<rparr>)\<rparr>"

text \<open>The end of a hand that team 1 called and lost by 2 tricks to 3.\<close>

definition euchred :: world where
  "euchred = table\<lparr>phase := SCORE_GAME, hand_score := [1 \<mapsto> 2, 2 \<mapsto> 3], calling_team := Some 1,
      trump_suit := Some ''Spades'', current_dealer := Some 0, current_player := Some 1\<rparr>"

text \<open>
  A trick in progress: seat 0 deals, it is the turn of seat 1 (id 2), who holds the king
  of clubs and the nine of hearts.
\<close>

definition mid_trick :: world where
  "mid_trick =
     table\<lparr>objects := (seat [])(1 := seat [mk_Card ''K'' ''Clubs'', mk_Card ''9'' ''Hearts''] 1),
       phase := PLAY, current_dealer := Some 0, current_player := Some 1,
       trump_suit := Some ''Spades'', calling_team := Some 2\<rparr>"

text \<open>
  After a pickup: the dealer (seat 0, id 1) holds the nine of spades and the ace of
  hearts, was entered into \<open>blocking_on_discard\<close> by \<open>add_blocking_discard\<close>, as the
  pickup executor does, and the phase is DISCARD.
\<close>

definition must_discard :: world where
  "must_discard =
     add_blocking_discard 0
       (table\<lparr>objects := (seat [])(0 := seat [mk_Card ''9'' ''Spades'', mk_Card ''A'' ''Hearts''] 0),
          phase := DISCARD, current_dealer := Some 0, current_player := Some 1,
          trump_suit := Some ''Spades'', calling_team := Some 2\<rparr>)"

text \<open>A hand being played, with no reneg recorded.\<close>

definition playing :: world where
  "playing =
     table\<lparr>phase := PLAY, current_dealer := Some 0, current_player := Some 1,
       trump_suit := Some ''Spades'', calling_team := Some 2\<rparr>"

text \<open>
  A reneg accusation whose payload also carries the accusing player's id, which
  \<open>Reneg.execute\<close> reads.
\<close>

definition accuse :: "pyval \<Rightarrow> Action" where
  "accuse pid =
     mk_Action CallReneg ''call_reneg''
       [(''trick_number'', PyInt 1), (''team_id'', PyInt 1), (''player_id'', pid)]"

text \<open>
  The first bidding round. In \<open>bid_before_dealer\<close> seat 1 deals and seat 0, the player
  before the dealer, is to act; in \<open>bid_dealer\<close> seat 0 deals and is to act.
\<close>

definition bid_before_dealer :: world where
  "bid_before_dealer = table\<lparr>phase := PICKUP_CARD, current_dealer := Some 1, current_player := Some 0\<rparr>"

definition bid_dealer :: world where
  "bid_dealer = table\<lparr>phase := PICKUP_CARD, current_dealer := Some 0, current_player := Some 0\<rparr>"

text \<open>The dealer (seat 0) has just played the last card of a trick.\<close>

definition dealer_played :: world where
  "dealer_played = table\<lparr>phase := PLAY, current_dealer := Some 0, current_player := Some 0\<rparr>"



section \<open>Evaluation\<close>

text \<open>The definitions unfolded to run the model on the example states.\<close>

lemmas run_defs =
  table_def seat_def mk_Card_def mk_Play_def mk_Discard_def mk_Action_def mk_ActionRule_def
  mk_ActionResult_def py_index_def set_current_player_def set_phase_def payload_get_def
  get_player_def get_connection_def Player_remove_card_def Slot_add_card_def py_str_def
  Card_str_def Player_str_def player_opt_str_def Player_init_def Player_team_id_def
  Connection_getitem_def teamed_def

section \<open>Properties of the decks\<close>

lemma collect_ranks_Some:
  "collect_ranks (Some f) s rs acc = Inr (acc @ map (\<lambda>r. f r s) rs)"
  by (induction rs arbitrary: acc) simp_all

lemma collect_suits_Some:
  "collect_suits (Some f) ss rs acc = Inr (acc @ concat (map (\<lambda>s. map (\<lambda>r. f r s) rs) ss))"
  by (induction ss arbitrary: acc) (simp_all add: collect_ranks_Some)

text \<open>
  What the double loop builds from the Euchre rank list once the card constructor is
  found (as it is in the base class): the 24 cards of 6 ranks and 4 suits, each once.
\<close>

lemma euchre_ranks_by_suits:
  "\<exists>cs. collect_suits (Some mk_Card) Deck_SUITS EuchreDeck_RANKS [] = Inr cs
      \<and> length cs = 24 \<and> distinct cs
      \<and> set cs = {c. rank c \<in> set EuchreDeck_RANKS \<and> suit c \<in> set Deck_SUITS}"
proof -
  let ?cs = "concat (map (\<lambda>s. map (\<lambda>r. mk_Card r s) EuchreDeck_RANKS) Deck_SUITS)"
  have run: "collect_suits (Some mk_Card) Deck_SUITS EuchreDeck_RANKS [] = Inr ?cs"
    by (simp add: collect_suits_Some)
  have len: "length ?cs = 24"
    by (simp add: Deck_SUITS_def EuchreDeck_RANKS_def)
  have dist: "distinct ?cs"
    by (simp add: Deck_SUITS_def EuchreDeck_RANKS_def mk_Card_def)
  have "set ?cs = {c. rank c \<in> set EuchreDeck_RANKS \<and> suit c \<in> set Deck_SUITS}"
  proof (rule set_eqI)
    fix c :: Card
    have "c \<in> set ?cs \<longleftrightarrow> (\<exists>s \<in> set Deck_SUITS. \<exists>r \<in> set EuchreDeck_RANKS. c = mk_Card r s)"
      by auto
    also have "\<dots> \<longleftrightarrow> rank c \<in> set EuchreDeck_RANKS \<and> suit c \<in> set Deck_SUITS"
      by (cases c) (auto simp: mk_Card_def)
    finally show "c \<in> set ?cs \<longleftrightarrow> c \<in> {c. rank c \<in> set EuchreDeck_RANKS \<and> suit c \<in> set Deck_SUITS}"
      by simp
  qed
  with run len dist show ?thesis by blast
qed

text \<open>
  Claim C9. A freshly constructed deck should hold exactly the 24 cards of the ranks
  9, 10, J, Q, K, A in the four suits. As the code is written, neither class builds that
  deck: constructing a \<open>EuchreDeck\<close> raises AttributeError in the first iteration of
  \<open>collect\<close>, because \<open>self.Card\<close> names no attribute of the deck, and a freshly
  constructed base \<open>Deck\<close> holds 52 cards (13 ranks in 4 suits), among them the 2 of
  Hearts, although the docstring of \<open>Deck.collect\<close> promises 24.
\<close>

theorem C9_fresh_deck_is_not_24_cards:
  "EuchreDeck_init = Inl (AttributeError ''Card'')
   \<and> (\<exists>cs. Deck_init = Inr cs \<and> length cs = 52 \<and> length cs \<noteq> 24
          \<and> mk_Card ''2'' ''Hearts'' \<in> set cs)"
proof -
  have a: "EuchreDeck_init = Inl (AttributeError ''Card'')"
    by (simp add: EuchreDeck_init_def EuchreDeck_collect_def EuchreDeck_getattr_Card_def
        Deck_attributes_def Deck_SUITS_def EuchreDeck_RANKS_def)
  let ?cs = "concat (map (\<lambda>s. map (\<lambda>r. mk_Card r s) Deck_RANKS) Deck_SUITS)"
  have b: "Deck_init = Inr ?cs"
    by (simp add: Deck_init_def Deck_collect_def collect_suits_Some)
  have c: "length ?cs = 52"
    by (simp add: Deck_SUITS_def Deck_RANKS_def)
  have d: "mk_Card ''2'' ''Hearts'' \<in> set ?cs"
    by (simp add: Deck_SUITS_def Deck_RANKS_def)
  from c have e: "length ?cs \<noteq> 24"
    by simp
  from a b c d e show ?thesis by blast
qed

section \<open>Hand scoring\<close>

text \<open>
  Claim C2. Whenever the two teams' hand scores differ, \<open>ScoreHand.execute\<close> succeeds,
  the winner is the team with the higher hand score, and the points added to the
  winner's game score are 2 if the winner's hand score is at least 5 or the winner is
  not the calling team, and 1 otherwise; in particular they are 2 whenever the winner is
  not the calling team. The other team's game score is unchanged.
\<close>

theorem C2_hand_scoring_award:
  assumes "hand_score w 1 = Some h1" and "hand_score w 2 = Some h2" and "h1 \<noteq> h2"
    and "score w 1 = Some s1" and "score w 2 = Some s2"
  shows "\<exists>winner loser hw hl sw points r w'.
      ((winner = 1 \<and> loser = 2) \<or> (winner = 2 \<and> loser = 1))
    \<and> hand_score w winner = Some hw \<and> hand_score w loser = Some hl \<and> hl < hw
    \<and> score w winner = Some sw
    \<and> points = (if 5 \<le> hw \<or> calling_team w \<noteq> Some winner then 2 else 1)
    \<and> (calling_team w \<noteq> Some winner \<longrightarrow> points = 2)
    \<and> ScoreHand_execute w = (Inr (Some r), w')
    \<and> success r
    \<and> score w' winner = Some (sw + points)
    \<and> score w' loser = score w loser"
proof (cases "h1 > h2")
  case True
  show ?thesis
    apply (rule exI[of _ 1], rule exI[of _ 2], rule exI[of _ h1], rule exI[of _ h2], rule exI[of _ s1])
    using assms True
    by (auto simp: ScoreHand_execute_def dict_add_def Let_def set_phase_def mk_ActionResult_def)
next
  case False
  show ?thesis
    apply (rule exI[of _ 2], rule exI[of _ 1], rule exI[of _ h2], rule exI[of _ h1], rule exI[of _ s2])
    using assms False
    by (auto simp: ScoreHand_execute_def dict_add_def Let_def set_phase_def mk_ActionResult_def)
qed

text \<open>
  The specification's example of a euchre: team 1 called, the hand ends 2 to 3, team 2
  wins and is awarded 2 points.
\<close>

theorem C2_hand_scoring_award_witness:
  "\<exists>r w'. ScoreHand_execute euchred = (Inr (Some r), w') \<and> success r
     \<and> score w' 2 = Some 2 \<and> score w' 1 = Some 0"
proof -
  have hs: "hand_score euchred 1 = Some 2" "hand_score euchred 2 = Some 3" "(2::int) \<noteq> 3"
    and sc: "score euchred 1 = Some 0" "score euchred 2 = Some 0"
    and ct: "calling_team euchred = Some 1"
    by (simp_all add: euchred_def table_def)
  from C2_hand_scoring_award [OF hs sc]
  obtain winner loser hw hl sw points r w' where
    wl: "(winner = 1 \<and> loser = 2) \<or> (winner = 2 \<and> loser = 1)"
    and h: "hand_score euchred winner = Some hw" "hand_score euchred loser = Some hl" "hl < hw"
    and s: "score euchred winner = Some sw"
    and p: "calling_team euchred \<noteq> Some winner \<longrightarrow> points = 2"
    and run: "ScoreHand_execute euchred = (Inr (Some r), w')" "success r"
    and after: "score w' winner = Some (sw + points)" "score w' loser = score euchred loser"
    by blast
  from wl h hs have w2: "winner = 2" "loser = 1"
    by auto
  with p ct s sc have "points = 2" "sw = 0"
    by auto
  with w2 run after sc show ?thesis
    by auto
qed

section \<open>Routing\<close>

text \<open>
  Claim C6. A client-originated \<open>pass\<close> action should pass the allow-list check and be
  routed to a registered rule without raising. In the code the rule table of
  \<open>EuchreActionRouter\<close> has no entry for \<open>pass\<close>, so \<open>route\<close> raises ValueError for
  the \<open>Pass\<close> action the builder makes, whatever the state and the rules' processing;
  and the list of \<open>is_player_action\<close> does not contain \<open>pass\<close> either. For an action
  that has a rule, such as the builder's \<open>Play\<close>, the allow-list check itself raises
  NameError: core/logic.py calls \<open>is_player_action\<close> and does not import it.
\<close>

theorem C6_pass_is_not_routed:
  "route proc EuchreActionRouter_rules mk_Pass w True
     = Inl (ValueError [Lit ''No rule found for action: '', Lit ''pass''])
   \<and> map_of EuchreActionRouter_rules ''pass'' = None
   \<and> is_player_action (mk_Pass\<lparr>action_type := Some ''pass''\<rparr>) = Inr False
   \<and> route proc EuchreActionRouter_rules (mk_Play c pid) w True
       = Inl (NameError ''is_player_action'')"
  by (simp add: route_def EuchreActionRouter_rules_def is_player_action_def mk_Pass_def
      mk_Play_def mk_Action_def logic_global_is_player_action_def logic_module_names_def)

section \<open>Discarding\<close>

text \<open>Only a card is found in a hand.\<close>

lemma only_cards_in_hand:
  "py_contains (map PyCard h) v = Inr True \<Longrightarrow> \<exists>c. v = PyCard c"
  by (cases h; cases v) auto

text \<open>
  The membership test of \<open>BlockedOnPlayerDiscard\<close> compares an id with player objects:
  a value that is an id (or \<open>None\<close>, or a boolean) is in no list of player objects.
\<close>

lemma id_in_no_player_list:
  "v \<in> range PyInt \<union> range PyStr \<union> range PyBool \<union> {PyNone}
     \<Longrightarrow> py_contains (map PyPlayer ps) v = Inr False"
  by (induction ps) auto

text \<open>
  Claim C5. In phase DISCARD, with the dealer entered into \<open>blocking_on_discard\<close> by the
  pickup and holding the card, the dealer's discard should pass every validator and the
  executor should clear the block and set the phase to PLAY. In the code the first two
  validators pass, but \<open>BlockedOnPlayerDiscard\<close> looks the player's id up in a list of
  player objects and returns false, so \<open>process\<close> rejects the discard and leaves the
  state as it was, for every semantics of the executors. Run on its own, the executor
  clears the block and then raises TypeError at \<open>connection[1]\<close>, before it sets the
  phase.
\<close>

theorem C5_dealer_discard_is_rejected:
  "blocking_on_discard must_discard = [0]
   \<and> current_dealer must_discard = Some 0
   \<and> player_id (objects must_discard 0) = PyInt 1
   \<and> phase must_discard = DISCARD
   \<and> CorrectPhase_validate (mk_Discard (PyCard (mk_Card ''9'' ''Spades'')) (PyInt 1)) must_discard
       = Inr True
   \<and> HasCard_validate (mk_Discard (PyCard (mk_Card ''9'' ''Spades'')) (PyInt 1)) must_discard
       = Inr True
   \<and> BlockedOnPlayerDiscard_validate (mk_Discard (PyCard (mk_Card ''9'' ''Spades'')) (PyInt 1))
         must_discard
       = Inr False
   \<and> process exec Discard_ActionRule (mk_Discard (PyCard (mk_Card ''9'' ''Spades'')) (PyInt 1))
         must_discard
       = Some (Inr (mk_ActionResult False [Lit ''Action validation failed''] []), must_discard)
   \<and> (\<exists>w'. Discard_execute (mk_Discard (PyCard (mk_Card ''9'' ''Spades'')) (PyInt 1)) must_discard
                 = (Inl TypeError, w')
             \<and> blocking_on_discard w' = [] \<and> phase w' = DISCARD)"
  by (simp add: process_def Discard_ActionRule_def CorrectPhase_validate_def HasCard_validate_def
      BlockedOnPlayerDiscard_validate_def must_discard_def add_blocking_discard_def
      remove_blocking_discard_def Discard_execute_def run_defs)

section \<open>Reneg accusations\<close>

text \<open>
  Claim C3. A reneg accusation should be upheld (5 hand points to the accusing team) when
  a reneg is recorded and rejected (5 hand points to the other team) otherwise, and hand
  scoring should follow in both cases. In the code:
  \<^item> the \<open>CallReneg\<close> action of the builder has no \<open>player_id\<close> in its payload, and the
    executor raises KeyError on its first line;
  \<^item> with the accuser's id in the payload, reading the accuser's \<open>team_id\<close> raises
    AttributeError on the players the repository builds;
  \<^item> with a team id attached to the players and no reneg recorded (the list is empty, as
    at the start of a game), indexing the list with the team id raises IndexError:
    nothing is rejected, no team gains points, no hand scoring runs;
  \<^item> with team ids and renegs recorded, the accusing team gains 5 hand points and the
    executor then raises TypeError while building its result, so no hand scoring runs
    and the phase stays PLAY;
  \<^item> a failed result, as the rejecting branch returns, ends \<open>run_executors\<close> at once:
    the follow-ups it carries, hand scoring among them, are not executed.
\<close>

theorem C3_reneg_raises:
  "Reneg_execute (mk_CallReneg trick_number team) w = (Inl KeyError, w)
   \<and> renegs playing = []
   \<and> Reneg_execute (accuse (PyInt 1)) playing = (Inl (AttributeError ''team_id''), playing)
   \<and> renegs (teamed playing) = []
   \<and> Reneg_execute (accuse (PyInt 1)) (teamed playing) = (Inl IndexError, teamed playing)
   \<and> (\<exists>w'. Reneg_execute (accuse (PyInt 1))
                 (add_reneg 2 ''second'' (add_reneg 2 ''first'' (teamed playing)))
               = (Inl TypeError, w')
          \<and> hand_score w' 1 = Some 5 \<and> hand_score w' 2 = Some 0 \<and> phase w' = PLAY)
   \<and> run_executors (\<lambda>x a w. (Inr (Some (mk_ActionResult False m [Broadcast b, ScoreHand])), w))
         sm a w [Reneg]
       = Some (Inr (mk_ActionResult False m [Broadcast b, ScoreHand]), w)"
proof -
  have a: "Reneg_execute (mk_CallReneg trick_number team) w = (Inl KeyError, w)"
    by (simp add: Reneg_execute_def mk_CallReneg_def mk_Action_def payload_get_def)
  have b: "renegs playing = []
      \<and> Reneg_execute (accuse (PyInt 1)) playing = (Inl (AttributeError ''team_id''), playing)"
    by (simp add: Reneg_execute_def accuse_def playing_def py_getitem_def run_defs)
  have b': "renegs (teamed playing) = []
      \<and> Reneg_execute (accuse (PyInt 1)) (teamed playing) = (Inl IndexError, teamed playing)"
    by (simp add: Reneg_execute_def accuse_def playing_def py_getitem_def run_defs)
  have c: "\<exists>w'. Reneg_execute (accuse (PyInt 1))
                 (add_reneg 2 ''second'' (add_reneg 2 ''first'' (teamed playing)))
               = (Inl TypeError, w')
          \<and> hand_score w' 1 = Some 5 \<and> hand_score w' 2 = Some 0 \<and> phase w' = PLAY"
    by (simp add: Reneg_execute_def accuse_def playing_def py_getitem_def add_reneg_def
        tuple_truthy_def dict_add_def run_defs)
  have d: "run_executors (\<lambda>x a w. (Inr (Some (mk_ActionResult False m [Broadcast b, ScoreHand])), w))
         sm a w [Reneg]
       = Some (Inr (mk_ActionResult False m [Broadcast b, ScoreHand]), w)"
    by (subst run_executors.simps) (simp add: mk_ActionResult_def)
  from a b b' c d show ?thesis
    by blast
qed

section \<open>Advancing the turn\<close>

text \<open>
  Claim C10. Every executor run by the follow-up drain should return an \<open>ActionResult\<close>,
  \<open>AdvanceTurn\<close> also when the player who acted is not the dealer. In the code
  \<open>AdvanceTurn.execute\<close> returns a result only inside \<open>if trick_over\<close>; in the middle of
  a circuit the body ends without \<open>return\<close> and the value is \<open>None\<close>. The drain then
  reads \<open>result.success\<close> and raises AttributeError. (A valid play of a player other
  than the dealer does not get as far as its follow-up \<open>AdvanceTurn\<close>: \<open>PlayCard.execute\<close>
  raises TypeError at \<open>connection[1]\<close> and the state is as it was.)
\<close>

theorem C10_mid_circuit_advance_returns_None:
  "(\<exists>w'. AdvanceTurn_execute mid_trick = (Inr None, w')
         \<and> current_player w' = Some 2 \<and> phase w' = PLAY)
   \<and> (\<exists>w'. run_executors (execute other) [] a mid_trick [AdvanceTurn]
              = Some (Inl (AttributeError ''success''), w'))
   \<and> process (execute other) PlayCard_ActionRule
              (mk_Play (PyCard (mk_Card ''K'' ''Clubs'')) (PyInt 2)) mid_trick
              = Some (Inl TypeError, mid_trick)"
proof -
  have a: "\<exists>w'. AdvanceTurn_execute mid_trick = (Inr None, w')
         \<and> current_player w' = Some 2 \<and> phase w' = PLAY"
    by (simp add: AdvanceTurn_execute_def mid_trick_def run_defs)
  have b: "\<exists>w'. run_executors (execute other) [] a mid_trick [AdvanceTurn]
              = Some (Inl (AttributeError ''success''), w')"
    by (subst run_executors.simps)
      (simp add: execute_def AdvanceTurn_execute_def mid_trick_def run_defs)
  have c: "process (execute other) PlayCard_ActionRule
              (mk_Play (PyCard (mk_Card ''K'' ''Clubs'')) (PyInt 2)) mid_trick
              = Some (Inl TypeError, mid_trick)"
    apply (simp add: process_def PlayCard_ActionRule_def CorrectPhase_validate_def
        PlayersTurn_validate_def HasCard_validate_def mid_trick_def run_defs)
    apply (subst run_executors.simps)
    apply (simp add: execute_def PlayCard_execute_def run_defs)
    done
  from a b c show ?thesis
    by blast
qed

lemma first_index_nth:
  "distinct xs \<Longrightarrow> i < length xs \<Longrightarrow> first_index xs (xs ! i) = Some i"
proof (induction xs arbitrary: i)
  case Nil
  then show ?case by simp
next
  case (Cons x xs)
  show ?case
  proof (cases i)
    case 0
    then show ?thesis by simp
  next
    case (Suc j)
    with Cons.prems have "xs ! j \<in> set xs" "x \<notin> set xs" "distinct xs" "j < length xs"
      by auto
    with Cons.IH [of j] Suc show ?thesis
      by auto
  qed
qed

lemma py_index_nth:
  "distinct xs \<Longrightarrow> i < length xs \<Longrightarrow> py_index xs (Some (xs ! i)) = Inr i"
  by (simp add: py_index_def first_index_nth)

text \<open>
  Claim C4, as stated, has the end of a circuit detected by comparing the current player
  after the advance with the dealer. The code compares before the advance. When the
  player before the dealer acts, the new current player is the dealer, and the phase is
  not promoted; when the dealer acts, the new current player is not the dealer, and the
  phase is promoted.
\<close>

theorem C4_post_advance_comparison_counterexample:
  "(\<exists>out w'. AdvanceTurn_execute bid_before_dealer = (out, w')
       \<and> current_player w' = current_dealer w' \<and> phase w' = PICKUP_CARD \<and> out = Inr None)
   \<and> (\<exists>out w'. AdvanceTurn_execute bid_dealer = (out, w')
       \<and> current_player w' \<noteq> current_dealer w' \<and> phase w' = PICK_SUIT)"
  by (simp add: AdvanceTurn_execute_def bid_before_dealer_def bid_dealer_def run_defs)

text \<open>
  Claim C4, amended. With four players seated, an advance of the turn sets the current
  player to the next seat modulo 4. The circuit is complete when the player who was the
  current player before the advance is the dealer. Then PICKUP_CARD is promoted to
  PICK_SUIT, PICK_SUIT to DISCARD, and in PLAY the phase becomes SCORE_TRICK and the
  successful result carries trick scoring as a follow-up. When that player is not the
  dealer the phase is unchanged and nothing is returned.
\<close>

theorem C4_advance_turn:
  assumes "length (players w) = 4" and "distinct (players w)" and "i < 4"
    and "current_player w = Some (players w ! i)"
  shows "\<exists>out w'. AdvanceTurn_execute w = (Inr out, w')
      \<and> current_player w' = Some (players w ! ((i + 1) mod 4))
      \<and> (current_dealer w = current_player w \<and> phase w = PICKUP_CARD
            \<longrightarrow> phase w' = PICK_SUIT \<and> (\<exists>r. out = Some r \<and> success r))
      \<and> (current_dealer w = current_player w \<and> phase w = PICK_SUIT
            \<longrightarrow> phase w' = DISCARD \<and> (\<exists>r. out = Some r \<and> success r))
      \<and> (current_dealer w = current_player w \<and> phase w = PLAY
            \<longrightarrow> phase w' = SCORE_TRICK
                \<and> (\<exists>r. out = Some r \<and> success r \<and> ScoreTrick \<in> set (follow_up_actions r)))
      \<and> (current_dealer w \<noteq> current_player w \<longrightarrow> phase w' = phase w \<and> out = None)"
proof -
  from assms have idx: "py_index (players w) (Some (players w ! i)) = Inr i"
    by (simp add: py_index_nth)
  show ?thesis
    using assms(1,4)
    by (auto simp: AdvanceTurn_execute_def idx Let_def set_current_player_def set_phase_def
        mk_ActionResult_def)
qed

text \<open>The dealer plays the last card of a trick: the turn passes to seat 1 and the trick is scored.\<close>

theorem C4_advance_turn_witness:
  "\<exists>r w'. AdvanceTurn_execute dealer_played = (Inr (Some r), w')
      \<and> current_player w' = Some 1 \<and> phase w' = SCORE_TRICK
      \<and> success r \<and> ScoreTrick \<in> set (follow_up_actions r)"
proof -
  have h: "length (players dealer_played) = 4" "distinct (players dealer_played)" "(0::nat) < 4"
    "current_player dealer_played = Some (players dealer_played ! 0)"
    and d: "current_dealer dealer_played = current_player dealer_played"
      "phase dealer_played = PLAY" "players dealer_played ! ((0 + 1) mod 4) = 1"
    by (simp_all add: dealer_played_def table_def)
  from C4_advance_turn [OF h] d show ?thesis
    by auto
qed

section \<open>Processing an action\<close>

lemma run_validators_all_true:
  "(\<forall>u \<in> set vs. u a w = Inr True) \<Longrightarrow> run_validators (vs @ rest) a w = run_validators rest a w"
  by (induction vs) simp_all

text \<open>
  Claim C8. The validators of a rule run in registration order. When the validators
  before \<open>v\<close> return true and \<open>v\<close> returns false, \<open>process\<close> returns the failed result
  with the message "Action validation failed" and the state untouched, whatever the
  validators registered after \<open>v\<close> would do and whatever the executors do: neither is
  run. When all validators return true, \<open>process\<close> is the run of the rule's executor and
  its follow-ups: a failed result of the executor is returned as it is, and a successful
  one without follow-ups gives the default success, both with the state the executor
  left.
\<close>

theorem C8_process_fail_fast:
  fixes exec :: "'w semantics"
  shows
  "((\<forall>u \<in> set passed. u a w = Inr True) \<and> v a w = Inr False \<longrightarrow>
      process exec \<lparr>validators = passed @ v # later, executor = ex, success_message = sm\<rparr> a w
        = Some (Inr (mk_ActionResult False [Lit ''Action validation failed''] []), w))
   \<and> ((\<forall>u \<in> set vs. u a w = Inr True) \<longrightarrow>
      process exec \<lparr>validators = vs, executor = ex, success_message = sm\<rparr> a w
        = run_executors exec sm a w [ex]
      \<and> (\<forall>r w'. exec ex a w = (Inr (Some r), w') \<and> \<not> success r \<longrightarrow>
            process exec \<lparr>validators = vs, executor = ex, success_message = sm\<rparr> a w
              = Some (Inr r, w'))
      \<and> (\<forall>r w'. exec ex a w = (Inr (Some r), w') \<and> success r \<and> follow_up_actions r = [] \<longrightarrow>
            process exec \<lparr>validators = vs, executor = ex, success_message = sm\<rparr> a w
              = Some (Inr (mk_ActionResult True
                   (if sm \<noteq> [] then sm else [Lit ''Action executed successfully'']) []), w')))"
proof (intro conjI impI allI)
  assume "(\<forall>u \<in> set passed. u a w = Inr True) \<and> v a w = Inr False"
  then have "run_validators (passed @ v # later) a w = Inr False"
    by (simp add: run_validators_all_true)
  then show "process exec \<lparr>validators = passed @ v # later, executor = ex, success_message = sm\<rparr> a w
        = Some (Inr (mk_ActionResult False [Lit ''Action validation failed''] []), w)"
    by (simp add: process_def)
next
  assume "\<forall>u \<in> set vs. u a w = Inr True"
  then have "run_validators vs a w = Inr True"
    using run_validators_all_true [of vs a w "[]"] by simp
  then show p: "process exec \<lparr>validators = vs, executor = ex, success_message = sm\<rparr> a w
        = run_executors exec sm a w [ex]"
    by (simp add: process_def)
  { fix r w' assume "exec ex a w = (Inr (Some r), w') \<and> \<not> success r"
    then show "process exec \<lparr>validators = vs, executor = ex, success_message = sm\<rparr> a w
        = Some (Inr r, w')"
      unfolding p by (subst run_executors.simps) simp }
  { fix r w' assume "exec ex a w = (Inr (Some r), w') \<and> success r \<and> follow_up_actions r = []"
    then show "process exec \<lparr>validators = vs, executor = ex, success_message = sm\<rparr> a w
              = Some (Inr (mk_ActionResult True
                   (if sm \<noteq> [] then sm else [Lit ''Action executed successfully'']) []), w')"
      unfolding p by (subst run_executors.simps) simp }
qed

text \<open>
  Two runs of the Euchre rules. The discard rule on the dealer's discard after a pickup:
  the first two validators return true and the third false. The play rule on a valid
  play: all three validators return true, and the executor (which fails here on a card
  the player does not hold) decides the result.
\<close>

theorem C8_process_fail_fast_witness:
  "process (execute (\<lambda>x a w. (Inl TypeError, w))) Discard_ActionRule
       (mk_Discard (PyCard (mk_Card ''9'' ''Spades'')) (PyInt 1)) must_discard
     = Some (Inr (mk_ActionResult False [Lit ''Action validation failed''] []), must_discard)
   \<and> process (execute (\<lambda>x a w. (Inl TypeError, w))) PlayCard_ActionRule
       (mk_Play (PyCard (mk_Card ''K'' ''Clubs'')) (PyInt 2)) mid_trick
     = run_executors (execute (\<lambda>x a w. (Inl TypeError, w))) []
         (mk_Play (PyCard (mk_Card ''K'' ''Clubs'')) (PyInt 2)) mid_trick [PlayCard]"
proof -
  let ?exec = "execute (\<lambda>x a w. (Inl TypeError, w))"
  let ?d = "mk_Discard (PyCard (mk_Card ''9'' ''Spades'')) (PyInt 1)"
  let ?p = "mk_Play (PyCard (mk_Card ''K'' ''Clubs'')) (PyInt 2)"
  have first2: "\<forall>u \<in> set [CorrectPhase_validate, HasCard_validate]. u ?d must_discard = Inr True"
    by (simp add: CorrectPhase_validate_def HasCard_validate_def must_discard_def
        add_blocking_discard_def run_defs)
  have third: "BlockedOnPlayerDiscard_validate ?d must_discard = Inr False"
    by (simp add: BlockedOnPlayerDiscard_validate_def must_discard_def add_blocking_discard_def
        run_defs)
  have all3: "\<forall>u \<in> set [CorrectPhase_validate, PlayersTurn_validate, HasCard_validate].
      u ?p mid_trick = Inr True"
    by (simp add: CorrectPhase_validate_def PlayersTurn_validate_def HasCard_validate_def
        mid_trick_def run_defs)
  note inst1 = C8_process_fail_fast
    [where exec = ?exec and passed = "[CorrectPhase_validate, HasCard_validate]"
       and v = BlockedOnPlayerDiscard_validate and later = "[]" and ex = Discard and sm = "[]"
       and a = ?d and w = must_discard]
  from inst1 first2 third
  have one: "process ?exec Discard_ActionRule ?d must_discard
     = Some (Inr (mk_ActionResult False [Lit ''Action validation failed''] []), must_discard)"
    by (simp add: Discard_ActionRule_def mk_ActionRule_def)
  note inst2 = C8_process_fail_fast
    [where exec = ?exec and vs = "[CorrectPhase_validate, PlayersTurn_validate, HasCard_validate]"
       and ex = PlayCard and sm = "[]" and a = ?p and w = mid_trick]
  from inst2 all3
  have two: "process ?exec PlayCard_ActionRule ?p mid_trick
     = run_executors ?exec [] ?p mid_trick [PlayCard]"
    by (simp add: PlayCard_ActionRule_def mk_ActionRule_def)
  from one two show ?thesis
    by simp
qed

section \<open>Trick scoring\<close>












section \<open>The sum of the hand scores\<close>












end
